theory Spec2Isabelle
  imports Complex_Main "HOL-Library.Word"
begin

section \<open>Conventions of the embedding\<close>

text \<open>
  The renderer is C++. Its \<^verbatim>\<open>uint32\<close> and \<^verbatim>\<open>int\<close> values that take
  part in arithmetic are 32-bit words, so that wrap-around is the model's too. Its
  \<^verbatim>\<open>float\<close> and \<^verbatim>\<open>double\<close> values are embedded as reals: comparison,
  \<open>max\<close>, \<open>min\<close> and the truncation \<^verbatim>\<open>int(x)\<close> of a value in range are the
  same on both, while rounding, infinities and NaN are outside the model. A theorem
  below that only follows the control flow and the order of finite values holds of the
  code as it is; one that uses field identities of the reals is the exact-arithmetic
  reading of the code and says so.
\<close>

subsection \<open>Vectors (math/Vec.hpp)\<close>

datatype Vec2f = Vec2f (ux: real) (uy: real)

datatype Vec3f = Vec3f (vx: real) (vy: real) (vz: real)

text \<open>Modelled from the spec: math/Vec.hpp is not part of the sources at hand; the
  operations are the componentwise ones their names say.\<close>

definition vsub :: "Vec3f \<Rightarrow> Vec3f \<Rightarrow> Vec3f" where
  "vsub a b = Vec3f (vx a - vx b) (vy a - vy b) (vz a - vz b)"

definition vadd :: "Vec3f \<Rightarrow> Vec3f \<Rightarrow> Vec3f" where
  "vadd a b = Vec3f (vx a + vx b) (vy a + vy b) (vz a + vz b)"

definition vmul :: "Vec3f \<Rightarrow> Vec3f \<Rightarrow> Vec3f" where
  "vmul a b = Vec3f (vx a * vx b) (vy a * vy b) (vz a * vz b)"

definition vquot :: "Vec3f \<Rightarrow> Vec3f \<Rightarrow> Vec3f" where
  "vquot a b = Vec3f (vx a / vx b) (vy a / vy b) (vz a / vz b)"

definition vscale :: "real \<Rightarrow> Vec3f \<Rightarrow> Vec3f" where
  "vscale s a = Vec3f (s * vx a) (s * vy a) (s * vz a)"

definition vdivs :: "Vec3f \<Rightarrow> real \<Rightarrow> Vec3f" where
  "vdivs a s = Vec3f (vx a / s) (vy a / s) (vz a / s)"

definition splat :: "real \<Rightarrow> Vec3f" where
  "splat s = Vec3f s s s"

definition dot :: "Vec3f \<Rightarrow> Vec3f \<Rightarrow> real" where
  "dot a b = vx a * vx b + vy a * vy b + vz a * vz b"

definition cross :: "Vec3f \<Rightarrow> Vec3f \<Rightarrow> Vec3f" where
  "cross a b = Vec3f (vy a * vz b - vz a * vy b)
                     (vz a * vx b - vx a * vz b)
                     (vx a * vy b - vy a * vx b)"

definition lengthSq :: "Vec3f \<Rightarrow> real" where
  "lengthSq a = dot a a"

definition vlength :: "Vec3f \<Rightarrow> real" where
  "vlength a = sqrt (lengthSq a)"

definition normalized :: "Vec3f \<Rightarrow> Vec3f" where
  "normalized a = vdivs a (vlength a)"

definition vmax :: "Vec3f \<Rightarrow> real" where
  "vmax a = max (max (vx a) (vy a)) (vz a)"

definition vexp :: "Vec3f \<Rightarrow> Vec3f" where
  "vexp a = Vec3f (exp (vx a)) (exp (vy a)) (exp (vz a))"

text \<open>Modelled from the spec: math/MathUtil.hpp is not part of the sources at hand;
  \<open>clamp\<close> bounds a value from below, then from above, and \<open>triangleArea\<close> is
  half the length of the cross product of two edges.\<close>

definition clamp :: "int \<Rightarrow> int \<Rightarrow> int \<Rightarrow> int" where
  "clamp val minVal maxVal = min (max val minVal) maxVal"

definition triangleArea :: "Vec3f \<Rightarrow> Vec3f \<Rightarrow> Vec3f \<Rightarrow> real" where
  "triangleArea p0 p1 p2 = vlength (cross (vsub p1 p0) (vsub p2 p0)) * (1/2)"

text \<open>\<^verbatim>\<open>int(x)\<close> of a float: truncation towards zero.\<close>

definition to_int :: "real \<Rightarrow> int" where
  "to_int r = (if 0 \<le> r then \<lfloor>r\<rfloor> else \<lceil>r\<rceil>)"

section \<open>Triangle meshes (core/primitives/TriangleMesh.cpp)\<close>

record Vertex =
  pos :: Vec3f
  normal :: Vec3f
  uv :: Vec2f

record TriangleI =
  v0 :: nat
  v1 :: nat
  v2 :: nat
  material :: int

text \<open>
  The mesh state. \<open>transform\<close> and \<open>normalTform\<close> are the point and the normal
  transformation of the primitive's matrix, \<open>intersector\<close> is \<open>None\<close> for the null
  pointer and otherwise holds the culling flag the intersector was queried with,
  \<open>triSampler\<close> is the warp of the area distribution once \<open>makeSamplable\<close> has built it.
\<close>

record 'b TriangleMesh =
  transform :: "Vec3f \<Rightarrow> Vec3f"
  normalTform :: "Vec3f \<Rightarrow> Vec3f"
  smoothed :: bool
  backfaceCulling :: bool
  verts :: "Vertex list"
  tris :: "TriangleI list"
  bsdfs :: "'b list"
  tfVerts :: "Vertex list"
  totalArea :: real
  intersector :: "bool option"
  triSampler :: "(real \<Rightarrow> real \<times> nat) option"

definition clampMaterial :: "'b TriangleMesh \<Rightarrow> TriangleI \<Rightarrow> TriangleI" where
  "clampMaterial m t = t\<lparr>material := clamp (material t) 0 (int (length (bsdfs m)) - 1)\<rparr>"

definition transformVertex :: "'b TriangleMesh \<Rightarrow> Vertex \<Rightarrow> Vertex" where
  "transformVertex m v =
     \<lparr>pos = transform m (pos v), normal = normalTform m (normal v), uv = uv v\<rparr>"

definition triArea :: "Vertex list \<Rightarrow> TriangleI \<Rightarrow> real" where
  "triArea tv t = triangleArea (pos (tv ! v0 t)) (pos (tv ! v1 t)) (pos (tv ! v2 t))"

definition prepareForRender :: "'b TriangleMesh \<Rightarrow> 'b TriangleMesh" where
  "prepareForRender m =
     (if verts m = [] \<or> tris m = [] then m
      else
        let ts = map (clampMaterial m) (tris m);
            tv = map (transformVertex m) (verts m)
        in m\<lparr>tris := ts,
              tfVerts := tv,
              totalArea := fold (\<lambda>t a. a + triArea tv t) ts 0,
              intersector := Some (backfaceCulling m)\<rparr>)"

record MeshIntersection =
  isect_Ng :: Vec3f
  isect_u :: real
  isect_v :: real
  id0 :: nat
  id1 :: nat
  backSide :: bool

record 'b IntersectionInfo =
  info_p :: Vec3f
  info_Ng :: Vec3f
  info_Ns :: Vec3f
  info_uv :: Vec2f
  info_bsdf :: 'b

definition normalAt :: "'b TriangleMesh \<Rightarrow> nat \<Rightarrow> real \<Rightarrow> real \<Rightarrow> Vec3f" where
  "normalAt m triangle u v =
     (let t = tris m ! triangle;
          n0 = normal (tfVerts m ! v0 t);
          n1 = normal (tfVerts m ! v1 t);
          n2 = normal (tfVerts m ! v2 t)
      in normalized (vadd (vadd (vscale (1 - u - v) n0) (vscale u n1)) (vscale v n2)))"

definition uvAt :: "'b TriangleMesh \<Rightarrow> nat \<Rightarrow> real \<Rightarrow> real \<Rightarrow> Vec2f" where
  "uvAt m triangle u v =
     (let t = tris m ! triangle;
          uv0 = uv (tfVerts m ! v0 t);
          uv1 = uv (tfVerts m ! v1 t);
          uv2 = uv (tfVerts m ! v2 t)
      in Vec2f ((1 - u - v) * ux uv0 + u * ux uv1 + v * ux uv2)
               ((1 - u - v) * uy uv0 + u * uy uv1 + v * uy uv2))"

text \<open>
  \<open>intersectionInfo\<close> fills the record it is handed and indexes \<^verbatim>\<open>_bsdfs\<close> with
  the hit triangle's material. An index outside the vector is undefined behaviour in
  the source; the model returns \<open>None\<close> there, so that being in bounds is something to
  prove.
\<close>

definition intersectionInfo ::
  "'b TriangleMesh \<Rightarrow> MeshIntersection \<Rightarrow> 'b IntersectionInfo
     \<Rightarrow> 'b IntersectionInfo option" where
  "intersectionInfo m isect info0 =
     (if id0 isect < length (tris m) then
        let mat = material (tris m ! id0 isect);
            ng = normalized (isect_Ng isect)
        in if 0 \<le> mat \<and> mat < int (length (bsdfs m)) then
             Some (info0\<lparr>info_Ng := ng,
                   info_Ns := (if smoothed m
                              then normalAt m (id0 isect) (isect_u isect) (isect_v isect)
                              else ng),
                   info_uv := uvAt m (id0 isect) (isect_u isect) (isect_v isect),
                   info_bsdf := bsdfs m ! nat mat\<rparr>)
           else None
      else None)"

text \<open>A mesh whose file gave triangles but no vertices, with one BSDF: the input at
  which \<open>prepareForRender\<close> returns before its clamping loop.\<close>

definition noVertexMesh :: "unit TriangleMesh" where
  "noVertexMesh =
     \<lparr>transform = (\<lambda>p. p), normalTform = (\<lambda>n. n), smoothed = False,
      backfaceCulling = False, verts = [],
      tris = [\<lparr>v0 = 0, v1 = 1, v2 = 2, material = 7\<rparr>], bsdfs = [()],
      tfVerts = [], totalArea = 0, intersector = None, triSampler = None\<rparr>"

definition unitTriangleMesh :: "unit TriangleMesh" where
  "unitTriangleMesh =
     \<lparr>transform = (\<lambda>p. p), normalTform = (\<lambda>n. n), smoothed = False,
      backfaceCulling = False,
      verts = [\<lparr>pos = Vec3f 0 0 0, normal = Vec3f 0 0 1, uv = Vec2f 0 0\<rparr>,
               \<lparr>pos = Vec3f 1 0 0, normal = Vec3f 0 0 1, uv = Vec2f 1 0\<rparr>,
               \<lparr>pos = Vec3f 0 1 0, normal = Vec3f 0 0 1, uv = Vec2f 0 1\<rparr>],
      tris = [\<lparr>v0 = 0, v1 = 1, v2 = 2, material = 7\<rparr>], bsdfs = [()],
      tfVerts = [], totalArea = 0, intersector = None, triSampler = None\<rparr>"

section \<open>The render driver (core/renderer/Renderer.cpp)\<close>

text \<open>
  One \<open>SampleRecord\<close> per variance cell. The struct is declared in a header that is
  not part of the sources at hand: the two counters are kept as 32-bit patterns, and
  \<open>errorEstimate\<close> holds the value the record's method \<^verbatim>\<open>errorEstimate()\<close>
  returns, which the driver only reads.
\<close>

record SampleRecord =
  sampleIndex :: "32 word"
  nextSampleCount :: "32 word"
  adaptiveWeight :: real
  errorEstimate :: real

text \<open>
  The driver's state. \<open>VarianceTileSize\<close> and \<open>AdaptiveThreshold\<close> are the class
  constants of Renderer.hpp, taken as parameters; \<open>useAdaptiveSampling\<close> is the
  scene's renderer setting. \<open>sampler\<close> is the stream of values \<^verbatim>\<open>_sampler.next1D()\<close>
  returns from now on and \<open>samplerPos\<close> counts the draws taken.
\<close>

record Renderer =
  VarianceTileSize :: "32 word"
  AdaptiveThreshold :: "32 word"
  useAdaptiveSampling :: bool
  imgW :: "32 word"
  imgH :: "32 word"
  varianceW :: "32 word"
  varianceH :: "32 word"
  samples :: "SampleRecord list"
  sampler :: "nat \<Rightarrow> real"
  samplerPos :: nat

text \<open>The constructor: the variance grid and one record per cell. The record's own
  constructor is not part of the sources at hand; its fields start at zero here.\<close>

definition newRenderer ::
  "32 word \<Rightarrow> 32 word \<Rightarrow> bool \<Rightarrow> 32 word \<Rightarrow> 32 word \<Rightarrow> (nat \<Rightarrow> real) \<Rightarrow> Renderer" where
  "newRenderer vts thr adaptive rw rh smp =
     (let vw = (rw + vts - 1) div vts;
          vh = (rh + vts - 1) div vts
      in \<lparr>VarianceTileSize = vts, AdaptiveThreshold = thr, useAdaptiveSampling = adaptive,
          imgW = rw, imgH = rh, varianceW = vw, varianceH = vh,
          samples = replicate (unat (vw * vh))
            \<lparr>sampleIndex = 0, nextSampleCount = 0, adaptiveWeight = 0, errorEstimate = 0\<rparr>,
          sampler = smp, samplerPos = 0\<rparr>)"

definition errorPercentile95 :: "SampleRecord list \<Rightarrow> real \<times> SampleRecord list" where
  "errorPercentile95 ss =
     (let ss' = map (\<lambda>r. r\<lparr>adaptiveWeight := errorEstimate r\<rparr>) ss;
          errors = filter (\<lambda>e. 0 < e) (map adaptiveWeight ss')
      in if errors = [] then (0, ss')
         else (sort errors ! ((length errors * 95) div 100), ss'))"

text \<open>
  The two passes of \<open>dilateAdaptiveWeights\<close>, cell by cell and in the source's order;
  \<open>W\<close> and \<open>H\<close> are the grid's dimensions. Inside the loops \<open>H\<close> and \<open>W\<close> are
  positive, so \<open>H - 1\<close> and \<open>W - 1\<close> do not wrap.
\<close>

definition dilateForwardCell ::
  "nat \<Rightarrow> nat \<Rightarrow> nat \<Rightarrow> nat \<Rightarrow> SampleRecord list \<Rightarrow> SampleRecord list" where
  "dilateForwardCell W H y x s =
     (let idx = x + y * W;
          s1 = (if y < H - 1
                then s[idx := (s ! idx)\<lparr>adaptiveWeight :=
                       max (adaptiveWeight (s ! idx)) (adaptiveWeight (s ! (idx + W)))\<rparr>]
                else s)
      in if x < W - 1
         then s1[idx := (s1 ! idx)\<lparr>adaptiveWeight :=
                max (adaptiveWeight (s1 ! idx)) (adaptiveWeight (s1 ! (idx + 1)))\<rparr>]
         else s1)"

definition dilateBackwardCell ::
  "nat \<Rightarrow> nat \<Rightarrow> nat \<Rightarrow> nat \<Rightarrow> SampleRecord list \<Rightarrow> SampleRecord list" where
  "dilateBackwardCell W H y x s =
     (let idx = x + y * W;
          s1 = (if 0 < y
                then s[idx := (s ! idx)\<lparr>adaptiveWeight :=
                       max (adaptiveWeight (s ! idx)) (adaptiveWeight (s ! (idx - W)))\<rparr>]
                else s)
      in if 0 < x
         then s1[idx := (s1 ! idx)\<lparr>adaptiveWeight :=
                max (adaptiveWeight (s1 ! idx)) (adaptiveWeight (s1 ! (idx - 1)))\<rparr>]
         else s1)"

definition dilateForward :: "nat \<Rightarrow> nat \<Rightarrow> SampleRecord list \<Rightarrow> SampleRecord list" where
  "dilateForward W H s =
     fold (\<lambda>y. fold (\<lambda>x. dilateForwardCell W H y x) [0..<W]) [0..<H] s"

definition dilateBackward :: "nat \<Rightarrow> nat \<Rightarrow> SampleRecord list \<Rightarrow> SampleRecord list" where
  "dilateBackward W H s =
     fold (\<lambda>y. fold (\<lambda>x. dilateBackwardCell W H y x) (rev [0..<W])) (rev [0..<H]) s"

definition dilateAdaptiveWeights :: "nat \<Rightarrow> nat \<Rightarrow> SampleRecord list \<Rightarrow> SampleRecord list" where
  "dilateAdaptiveWeights W H s = dilateBackward W H (dilateForward W H s)"

text \<open>
  The loop of \<open>distributeAdaptiveSamples\<close>: \<open>f\<close> is \<open>weightToSampleFactor\<close>, \<open>smp\<close> and
  \<open>p\<close> the sampler's stream and position, \<open>pixelPdf\<close> the running fraction. It
  returns the records and the sampler's position after the last draw.
\<close>

fun distributeLoop ::
  "real \<Rightarrow> (nat \<Rightarrow> real) \<Rightarrow> nat \<Rightarrow> real \<Rightarrow> SampleRecord list \<Rightarrow> SampleRecord list \<times> nat" where
  "distributeLoop f smp p pixelPdf [] = ([], p)"
| "distributeLoop f smp p pixelPdf (r # rs) =
     (let fractionalSamples = adaptiveWeight r * f;
          adaptiveSamples = to_int fractionalSamples;
          pixelPdf1 = pixelPdf + (fractionalSamples - of_int adaptiveSamples);
          hit = (smp p < pixelPdf1);
          adaptiveSamples' = (if hit then adaptiveSamples + 1 else adaptiveSamples);
          pixelPdf2 = (if hit then pixelPdf1 - 1 else pixelPdf1);
          rest = distributeLoop f smp (Suc p) pixelPdf2 rs
      in (r\<lparr>nextSampleCount := of_int (adaptiveSamples' + 1)\<rparr> # fst rest, snd rest))"

text \<open>
  \<open>budgetPerTile\<close>: the product \<^verbatim>\<open>(spp - 1)*_w*_h\<close> and the division by
  \<^verbatim>\<open>VarianceTileSize*VarianceTileSize\<close> are unsigned 32-bit operations (the
  \<^verbatim>\<open>int\<close> operands are converted); the result is read back as an \<^verbatim>\<open>int\<close>.
\<close>

definition budgetPerTile :: "Renderer \<Rightarrow> 32 word \<Rightarrow> 32 word" where
  "budgetPerTile R spp =
     ((spp - 1) * imgW R * imgH R) div (VarianceTileSize R * VarianceTileSize R)"

definition distributeAdaptiveSamples :: "32 word \<Rightarrow> Renderer \<Rightarrow> Renderer" where
  "distributeAdaptiveSamples spp R =
     (let totalWeight = fold (\<lambda>r t. t + adaptiveWeight r) (samples R) 0;
          weightToSampleFactor = real_of_int (sint (budgetPerTile R spp)) / totalWeight;
          res = distributeLoop weightToSampleFactor (sampler R) (samplerPos R) 0 (samples R)
      in R\<lparr>samples := fst res, samplerPos := snd res\<rparr>)"

definition generateWork :: "32 word \<Rightarrow> 32 word \<Rightarrow> Renderer \<Rightarrow> bool \<times> Renderer" where
  "generateWork sppFrom sppTo R =
     (let ss0 = map (\<lambda>r. r\<lparr>sampleIndex := sampleIndex r + nextSampleCount r\<rparr>) (samples R);
          sppCount = sppTo - sppFrom
      in if useAdaptiveSampling R \<and> AdaptiveThreshold R \<le> sppFrom then
           let (maxError, ss1) = errorPercentile95 ss0
           in if maxError = 0 then (False, R\<lparr>samples := ss1\<rparr>)
              else
                let ss2 = map (\<lambda>r. r\<lparr>adaptiveWeight := min (adaptiveWeight r) maxError\<rparr>) ss1;
                    ss3 = dilateAdaptiveWeights (unat (varianceW R)) (unat (varianceH R)) ss2
                in (True, distributeAdaptiveSamples sppCount (R\<lparr>samples := ss3\<rparr>))
         else (True, R\<lparr>samples := map (\<lambda>r. r\<lparr>nextSampleCount := sppCount\<rparr>) ss0\<rparr>))"


text \<open>The state the constructor leaves: one record per cell of the variance grid.\<close>

definition gridShaped :: "Renderer \<Rightarrow> bool" where
  "gridShaped R \<longleftrightarrow> length (samples R) = unat (varianceW R) * unat (varianceH R)"

text \<open>Proof vocabulary for the dilation: \<open>t\<close> has the length of \<open>s\<close> and no
  smaller adaptive weight anywhere.\<close>

definition weightsLe :: "SampleRecord list \<Rightarrow> SampleRecord list \<Rightarrow> bool" where
  "weightsLe s t \<longleftrightarrow>
     length s = length t \<and> (\<forall>i < length s. adaptiveWeight (s ! i) \<le> adaptiveWeight (t ! i))"

text \<open>
  Concrete drivers for a 4 by 4 image with the constants of the specification
  (\<open>VarianceTileSize = 4\<close>, \<open>AdaptiveThreshold = 16\<close>): the grid has one cell. The
  first renders uniformly; the second is adaptive, with a cell of error 1; the third is
  adaptive and converged. The fourth is a 2 by 2 grid of weights for the dilation.
\<close>

definition uniformRenderer :: Renderer where
  "uniformRenderer = newRenderer 4 16 False 4 4 (\<lambda>n. 1/2)"

definition adaptiveRenderer :: Renderer where
  "adaptiveRenderer = (newRenderer 4 16 True 4 4 (\<lambda>n. 1/2))
     \<lparr>samples := [\<lparr>sampleIndex = 16, nextSampleCount = 16, adaptiveWeight = 0,
                    errorEstimate = 1\<rparr>]\<rparr>"

definition convergedRenderer :: Renderer where
  "convergedRenderer = newRenderer 4 16 True 4 4 (\<lambda>n. 1/2)"

definition weights2x2 :: "SampleRecord list" where
  "weights2x2 = map (\<lambda>a. \<lparr>sampleIndex = 0, nextSampleCount = 0, adaptiveWeight = a,
                            errorEstimate = a\<rparr>) [1, 2, 3, 4]"

section \<open>The plastic BSDF (core/bsdfs/PlasticBsdf.cpp)\<close>

text \<open>Modelled from the spec: the lobe mask \<^verbatim>\<open>BsdfLobes\<close> is declared in a header
  that is not part of the sources at hand. It is a set of the six lobes, and
  \<^verbatim>\<open>test\<close> of one lobe is membership.\<close>

datatype Lobe =
    DiffuseReflectionLobe | GlossyReflectionLobe | SpecularReflectionLobe
  | DiffuseTransmissionLobe | GlossyTransmissionLobe | SpecularTransmissionLobe

text \<open>
  The scatter event. \<open>info\<close> is the surface information the albedo texture is looked
  up with and \<open>sampler_state\<close> the state of the event's sample generator.
\<close>

record ('i, 's) SurfaceScatterEvent =
  info :: 'i
  sampler_state :: 's
  wi :: Vec3f
  wo :: Vec3f
  throughput :: Vec3f
  pdf :: real
  requestedLobe :: "Lobe set"
  sampledLobe :: "Lobe set"

text \<open>
  What the BSDF calls and the sources at hand do not contain, as parameters: the
  Fresnel terms of Fresnel.hpp, the warps of SampleWarp.hpp, the albedo lookup of the
  base class and the two draws of the sample generator, each returning the value and
  the generator's next state.
\<close>

record ('i, 's) BsdfEnv =
  dielectricReflectance :: "real \<Rightarrow> real \<Rightarrow> real"
  computeDiffuseFresnel :: "real \<Rightarrow> nat \<Rightarrow> real"
  cosineHemisphere :: "Vec2f \<Rightarrow> Vec3f"
  cosineHemispherePdf :: "Vec3f \<Rightarrow> real"
  albedo :: "'i \<Rightarrow> Vec3f"
  next1D :: "'s \<Rightarrow> real \<times> 's"
  next2D :: "'s \<Rightarrow> Vec2f \<times> 's"

record PlasticBsdf =
  ior :: real
  thickness :: real
  sigmaA :: Vec3f
  scaledSigmaA :: Vec3f
  avgTransmittance :: real
  diffuseFresnel :: real

definition vavg :: "Vec3f \<Rightarrow> real" where
  "vavg a = (vx a + vy a + vz a) / 3"

definition PlasticBsdf_init :: "('i, 's) BsdfEnv \<Rightarrow> PlasticBsdf \<Rightarrow> PlasticBsdf" where
  "PlasticBsdf_init env b =
     (let ssa = vscale (thickness b) (sigmaA b)
      in b\<lparr>scaledSigmaA := ssa,
            avgTransmittance := exp (- 2 * vavg ssa),
            diffuseFresnel := computeDiffuseFresnel env (ior b) 1000000\<rparr>)"

text \<open>The diffuse term both \<open>sample\<close> and \<open>eval\<close> scale:
  \<^verbatim>\<open>diffuseAlbedo/(1.0f - diffuseAlbedo*_diffuseFresnel)\<close>.\<close>

definition albedoTerm :: "PlasticBsdf \<Rightarrow> Vec3f \<Rightarrow> Vec3f" where
  "albedoTerm b diffuseAlbedo =
     vquot diffuseAlbedo (vsub (splat 1) (vscale (diffuseFresnel b) diffuseAlbedo))"

text \<open>The absorption factor
  \<^verbatim>\<open>std::exp(_scaledSigmaA*(-1.0f/event.wo.z() - 1.0f/event.wi.z()))\<close>.\<close>

definition absorption :: "PlasticBsdf \<Rightarrow> real \<Rightarrow> real \<Rightarrow> Vec3f" where
  "absorption b woz wiz = vexp (vscale (- 1 / woz - 1 / wiz) (scaledSigmaA b))"

text \<open>
  \<open>sample\<close> returns its boolean and the event as it leaves it. The draw of
  \<open>next1D\<close> is the left operand of a short-circuit disjunction under
  \<open>sampleR &&\<close>: it is taken exactly when the specular lobe is requested.
\<close>

definition PlasticBsdf_sample ::
  "('i, 's) BsdfEnv \<Rightarrow> PlasticBsdf \<Rightarrow> ('i, 's) SurfaceScatterEvent
     \<Rightarrow> bool \<times> ('i, 's) SurfaceScatterEvent" where
  "PlasticBsdf_sample env b event =
     (if vz (wi event) \<le> 0 then (False, event)
      else
        let sampleR = (SpecularReflectionLobe \<in> requestedLobe event);
            sampleT = (DiffuseReflectionLobe \<in> requestedLobe event);
            eta = 1 / ior b;
            Fi = dielectricReflectance env eta (vz (wi event));
            substrateWeight = avgTransmittance b * (1 - Fi);
            specularWeight = Fi;
            specularProbability = specularWeight / (specularWeight + substrateWeight);
            draw = (if sampleR then next1D env (sampler_state event)
                    else (0, sampler_state event))
        in if sampleR \<and> (fst draw < specularProbability \<or> \<not> sampleT) then
             (True, event\<lparr>sampler_state := snd draw,
                wo := Vec3f (- vx (wi event)) (- vy (wi event)) (vz (wi event)),
                pdf := 0,
                throughput := (if sampleT then splat (Fi / specularProbability) else splat Fi),
                sampledLobe := {SpecularReflectionLobe}\<rparr>)
           else
             let draw2 = next2D env (snd draw);
                 wo' = cosineHemisphere env (fst draw2);
                 Fo = dielectricReflectance env eta (vz wo');
                 diffuseAlbedo = albedo env (info event);
                 t0 = vscale ((1 - Fi) * (1 - Fo) * eta * eta) (albedoTerm b diffuseAlbedo);
                 t1 = (if 0 < vmax (scaledSigmaA b)
                       then vmul t0 (absorption b (vz wo') (vz (wi event))) else t0);
                 p0 = cosineHemispherePdf env wo'
             in (True, event\<lparr>sampler_state := snd draw2,
                   wo := wo',
                   throughput := (if sampleR then vdivs t1 (1 - specularProbability) else t1),
                   pdf := (if sampleR then p0 * (1 - specularProbability) else p0),
                   sampledLobe := {DiffuseReflectionLobe}\<rparr>))"

definition PlasticBsdf_eval ::
  "('i, 's) BsdfEnv \<Rightarrow> PlasticBsdf \<Rightarrow> ('i, 's) SurfaceScatterEvent \<Rightarrow> Vec3f" where
  "PlasticBsdf_eval env b event =
     (if DiffuseReflectionLobe \<notin> requestedLobe event then splat 0
      else if vz (wi event) \<le> 0 \<or> vz (wo event) \<le> 0 then splat 0
      else
        let eta = 1 / ior b;
            Fi = dielectricReflectance env eta (vz (wi event));
            Fo = dielectricReflectance env eta (vz (wo event));
            diffuseAlbedo = albedo env (info event);
            brdf = vscale ((1 - Fi) * (1 - Fo) * eta * eta * vz (wo event) * (1 / pi))
                     (albedoTerm b diffuseAlbedo)
        in if 0 < vmax (scaledSigmaA b)
           then vmul brdf (absorption b (vz (wo event)) (vz (wi event))) else brdf)"

definition PlasticBsdf_pdf ::
  "('i, 's) BsdfEnv \<Rightarrow> PlasticBsdf \<Rightarrow> ('i, 's) SurfaceScatterEvent \<Rightarrow> real" where
  "PlasticBsdf_pdf env b event =
     (if vz (wi event) \<le> 0 \<or> vz (wo event) \<le> 0 then 0
      else
        let sampleR = (SpecularReflectionLobe \<in> requestedLobe event);
            sampleT = (DiffuseReflectionLobe \<in> requestedLobe event)
        in if \<not> sampleT then 0
           else
             let p0 = cosineHemispherePdf env (wo event)
             in if sampleR then
                  let Fi = dielectricReflectance env (1 / ior b) (vz (wi event));
                      substrateWeight = avgTransmittance b * (1 - Fi);
                      specularWeight = Fi;
                      specularProbability = specularWeight / (specularWeight + substrateWeight)
                  in p0 * (1 - specularProbability)
                else p0)"

text \<open>The quantities the claims name: the Fresnel reflectance at \<open>wi\<close> and the
  probability of the specular branch, \<open>Fi/(Fi + avgTransmittance*(1 - Fi))\<close>.\<close>

definition fresnelIn :: "('i, 's) BsdfEnv \<Rightarrow> PlasticBsdf \<Rightarrow> ('i, 's) SurfaceScatterEvent \<Rightarrow> real" where
  "fresnelIn env b event = dielectricReflectance env (1 / ior b) (vz (wi event))"

definition specularProbabilityOf ::
  "('i, 's) BsdfEnv \<Rightarrow> PlasticBsdf \<Rightarrow> ('i, 's) SurfaceScatterEvent \<Rightarrow> real" where
  "specularProbabilityOf env b event =
     fresnelIn env b event / (fresnelIn env b event + avgTransmittance b * (1 - fresnelIn env b event))"

text \<open>
  An environment for concrete runs, with the usual formulas behind the names: the
  unpolarised Fresnel reflectance of a dielectric, the cosine-weighted hemisphere warp
  and its density, a generator whose draws are one half in one dimension and the
  origin in two, and a grey albedo of one half. The BSDF is the default one of the
  constructor: \<open>ior = 1.5\<close>, no absorption.
\<close>

definition exampleFresnel :: "real \<Rightarrow> real \<Rightarrow> real" where
  "exampleFresnel eta cosI =
     (let sinTSq = eta * eta * (1 - cosI * cosI)
      in if 1 < sinTSq then 1
         else let cosT = sqrt (1 - sinTSq);
                  Rs = (eta * cosI - cosT) / (eta * cosI + cosT);
                  Rp = (eta * cosT - cosI) / (eta * cosT + cosI)
              in (Rs * Rs + Rp * Rp) * (1 / 2))"

definition exampleEnv :: "(unit, nat) BsdfEnv" where
  "exampleEnv =
     \<lparr>dielectricReflectance = exampleFresnel,
      computeDiffuseFresnel = (\<lambda>i n. 0),
      cosineHemisphere = (\<lambda>xi. Vec3f (cos (2 * pi * ux xi) * sqrt (uy xi))
                                      (sin (2 * pi * ux xi) * sqrt (uy xi))
                                      (sqrt (max (1 - uy xi) 0))),
      cosineHemispherePdf = (\<lambda>w. \<bar>vz w\<bar> * (1 / pi)),
      albedo = (\<lambda>i. splat (1 / 2)),
      next1D = (\<lambda>n. (1 / 2, Suc n)),
      next2D = (\<lambda>n. (Vec2f 0 0, Suc (Suc n)))\<rparr>"

definition examplePlastic :: PlasticBsdf where
  "examplePlastic = PlasticBsdf_init exampleEnv
     \<lparr>ior = 3 / 2, thickness = 0, sigmaA = splat 0, scaledSigmaA = splat 0,
      avgTransmittance = 0, diffuseFresnel = 0\<rparr>"

definition exampleEvent :: "Lobe set \<Rightarrow> (unit, nat) SurfaceScatterEvent" where
  "exampleEvent lobes =
     \<lparr>info = (), sampler_state = 0, wi = Vec3f 0 0 1, wo = Vec3f 0 0 0,
      throughput = splat 0, pdf = 0, requestedLobe = lobes, sampledLobe = {}\<rparr>"

section \<open>Bitmap textures (core/materials/BitmapTexture.cpp)\<close>

text \<open>Modelled from the spec: the enumeration \<^verbatim>\<open>TexelType\<close> is declared in a header
  that is not part of the sources at hand. \<open>getTexelType\<close> fixes what its four values
  mean for \<open>isRgb\<close> (bit 1) and \<open>isHdr\<close> (bit 0).\<close>

datatype TexelType = SCALAR_LDR | SCALAR_HDR | RGB_LDR | RGB_HDR



record Rgba =
  c0 :: "8 word"
  c1 :: "8 word"
  c2 :: "8 word"
  c3 :: "8 word"


text \<open>
  The texel buffer is one untyped pointer that the accessors cast by texel type; the
  model holds the four readings side by side, and an accessor picks the one its cast
  names. \<open>distWarp\<close> and \<open>distPdf\<close> are the two operations of \<^verbatim>\<open>Distribution2D\<close>
  (a class that is not part of the sources at hand) for the jacobian in use: the warp,
  from a point to the point within the chosen cell, the row and the column, and the
  pdf of a row and a column.
\<close>

record BitmapTexture =
  texLinear :: bool
  texClamp :: bool
  texW :: int
  texH :: int
  texelType :: TexelType
  texelsU8 :: "8 word list"
  texelsFloat :: "real list"
  texelsRgba :: "Rgba list"
  texelsVec3 :: "Vec3f list"
  distWarp :: "Vec2f \<Rightarrow> Vec2f \<times> int \<times> int"
  distPdf :: "int \<Rightarrow> int \<Rightarrow> real"







text \<open>\<open>sample\<close> and \<open>pdf\<close> of the importance sampling, for a built distribution.\<close>

definition BitmapTexture_sample :: "BitmapTexture \<Rightarrow> Vec2f \<Rightarrow> Vec2f" where
  "BitmapTexture_sample t coord =
     (let (newUv, row, column) = distWarp t coord
      in Vec2f ((ux newUv + real_of_int column) / real_of_int (texW t))
               (1 - (uy newUv + real_of_int row) / real_of_int (texH t)))"

definition BitmapTexture_pdf :: "BitmapTexture \<Rightarrow> Vec2f \<Rightarrow> real" where
  "BitmapTexture_pdf t coord =
     distPdf t (to_int ((1 - uy coord) * real_of_int (texH t)))
               (to_int (ux coord * real_of_int (texW t)))
       * real_of_int (texW t) * real_of_int (texH t)"




section \<open>Area sampling of a triangle mesh (core/primitives/TriangleMesh.cpp)\<close>











section \<open>The branches of \<open>generateWork\<close>\<close>

lemma errorPercentile95_snd:
  "snd (errorPercentile95 ss) = map (\<lambda>r. r\<lparr>adaptiveWeight := errorEstimate r\<rparr>) ss"
  by (simp add: errorPercentile95_def Let_def)

lemma percentile_index: "xs \<noteq> [] \<Longrightarrow> (length xs * 95) div 100 < length (xs::real list)"
  by (cases xs) simp_all

lemma errorPercentile95_zero:
  "(fst (errorPercentile95 ss) = 0) = (\<forall>r \<in> set ss. errorEstimate r \<le> 0)"
proof -
  let ?errs = "filter (\<lambda>e. 0 < e) (map errorEstimate ss)"
  have m: "map adaptiveWeight (map (\<lambda>r. r\<lparr>adaptiveWeight := errorEstimate r\<rparr>) ss) = map errorEstimate ss"
    by simp
  show ?thesis
  proof (cases "?errs = []")
    case True
    then have "\<forall>r \<in> set ss. errorEstimate r \<le> 0"
      by (auto simp: filter_empty_conv not_less)
    with True show ?thesis by (simp add: errorPercentile95_def Let_def m del: map_map)
  next
    case False
    let ?k = "(length ?errs * 95) div 100"
    have "?k < length (sort ?errs)"
      using percentile_index [OF False] by (simp only: length_sort)
    then have "sort ?errs ! ?k \<in> set (sort ?errs)" by (rule nth_mem)
    then have "sort ?errs ! ?k \<in> set ?errs" by (simp only: set_sort)
    then have pos: "0 < sort ?errs ! ?k" by (simp only: set_filter mem_Collect_eq)
    from False obtain r where "r \<in> set ss" "0 < errorEstimate r"
      by (auto simp: filter_empty_conv)
    then have "\<not> (\<forall>r \<in> set ss. errorEstimate r \<le> 0)" by force
    with False pos show ?thesis by (simp add: errorPercentile95_def Let_def m del: map_map)
  qed
qed

lemma errorPercentile95_sampleIndex:
  "fst (errorPercentile95 (map (\<lambda>r. r\<lparr>sampleIndex := g r\<rparr>) ss)) = fst (errorPercentile95 ss)"
  by (simp add: errorPercentile95_def Let_def comp_def)

text \<open>
  Claim C2. When adaptive sampling is off or \<open>sppFrom\<close> is below the threshold,
  \<open>generateWork\<close> returns true and every record's \<open>nextSampleCount\<close> is
  \<open>sppTo - sppFrom\<close>. Otherwise it returns false exactly when the 95th percentile of
  the positive error estimates is zero, which is exactly when no cell has a positive
  error estimate; for error estimates that are not negative (they estimate a standard
  error), exactly when every cell's error estimate is zero.
\<close>

theorem generateWork_branches:
  "(\<not> useAdaptiveSampling R \<or> sppFrom < AdaptiveThreshold R \<longrightarrow>
      fst (generateWork sppFrom sppTo R) \<and>
      length (samples (snd (generateWork sppFrom sppTo R))) = length (samples R) \<and>
      (\<forall>r \<in> set (samples (snd (generateWork sppFrom sppTo R))).
         nextSampleCount r = sppTo - sppFrom))
   \<and> (useAdaptiveSampling R \<and> AdaptiveThreshold R \<le> sppFrom \<longrightarrow>
      ((\<not> fst (generateWork sppFrom sppTo R)) = (fst (errorPercentile95 (samples R)) = 0)) \<and>
      ((fst (errorPercentile95 (samples R)) = 0) = (\<forall>r \<in> set (samples R). errorEstimate r \<le> 0)) \<and>
      ((\<forall>r \<in> set (samples R). 0 \<le> errorEstimate r) \<longrightarrow>
         (\<not> fst (generateWork sppFrom sppTo R)) = (\<forall>r \<in> set (samples R). errorEstimate r = 0)))"
proof (intro conjI impI)
  assume u: "\<not> useAdaptiveSampling R \<or> sppFrom < AdaptiveThreshold R"
  then have c: "\<not> (useAdaptiveSampling R \<and> AdaptiveThreshold R \<le> sppFrom)"
    by (auto simp: not_le)
  show "fst (generateWork sppFrom sppTo R)"
    by (simp add: generateWork_def Let_def c)
  show "length (samples (snd (generateWork sppFrom sppTo R))) = length (samples R)"
    by (simp add: generateWork_def Let_def c)
  show "\<forall>r \<in> set (samples (snd (generateWork sppFrom sppTo R))).
         nextSampleCount r = sppTo - sppFrom"
    by (simp add: generateWork_def Let_def c)
next
  assume a: "useAdaptiveSampling R \<and> AdaptiveThreshold R \<le> sppFrom"
  let ?ss0 = "map (\<lambda>r. r\<lparr>sampleIndex := sampleIndex r + nextSampleCount r\<rparr>) (samples R)"
  have e: "fst (errorPercentile95 ?ss0) = fst (errorPercentile95 (samples R))"
    by (rule errorPercentile95_sampleIndex)
  from a show g: "(\<not> fst (generateWork sppFrom sppTo R)) = (fst (errorPercentile95 (samples R)) = 0)"
    unfolding e [symmetric]
    by (simp add: generateWork_def Let_def split: prod.splits)
  show z: "(fst (errorPercentile95 (samples R)) = 0) = (\<forall>r \<in> set (samples R). errorEstimate r \<le> 0)"
    by (rule errorPercentile95_zero)
  assume nn: "\<forall>r \<in> set (samples R). 0 \<le> errorEstimate r"
  then have "(\<forall>r \<in> set (samples R). errorEstimate r \<le> 0) = (\<forall>r \<in> set (samples R). errorEstimate r = 0)"
    by (auto intro: antisym)
  with g z show "(\<not> fst (generateWork sppFrom sppTo R)) = (\<forall>r \<in> set (samples R). errorEstimate r = 0)"
    by simp
qed

theorem generateWork_branches_witness:
  "\<not> useAdaptiveSampling uniformRenderer
   \<and> fst (generateWork 0 1 uniformRenderer)
   \<and> map nextSampleCount (samples (snd (generateWork 0 1 uniformRenderer))) = [1]
   \<and> useAdaptiveSampling adaptiveRenderer \<and> AdaptiveThreshold adaptiveRenderer \<le> 16
   \<and> fst (generateWork 16 32 adaptiveRenderer)
   \<and> fst (errorPercentile95 (samples adaptiveRenderer)) = 1
   \<and> useAdaptiveSampling convergedRenderer \<and> AdaptiveThreshold convergedRenderer \<le> 16
   \<and> \<not> fst (generateWork 16 32 convergedRenderer)
   \<and> map errorEstimate (samples convergedRenderer) = [0]"
proof -
  have u: "\<not> useAdaptiveSampling uniformRenderer"
    by (simp add: uniformRenderer_def newRenderer_def Let_def)
  have us: "map nextSampleCount (samples (snd (generateWork 0 1 uniformRenderer))) = [1]"
    by (simp add: uniformRenderer_def newRenderer_def generateWork_def Let_def)
  have a: "useAdaptiveSampling adaptiveRenderer \<and> AdaptiveThreshold adaptiveRenderer \<le> 16"
    by (simp add: adaptiveRenderer_def newRenderer_def Let_def)
  have ae: "fst (errorPercentile95 (samples adaptiveRenderer)) = 1"
    by (simp add: adaptiveRenderer_def newRenderer_def errorPercentile95_def Let_def)
  have c: "useAdaptiveSampling convergedRenderer \<and> AdaptiveThreshold convergedRenderer \<le> 16"
    by (simp add: convergedRenderer_def newRenderer_def Let_def)
  have ce: "samples convergedRenderer =
      [\<lparr>sampleIndex = 0, nextSampleCount = 0, adaptiveWeight = 0, errorEstimate = 0\<rparr>]"
    by (simp add: convergedRenderer_def newRenderer_def Let_def)
  from u generateWork_branches [of uniformRenderer 0 1]
  have 1: "fst (generateWork 0 1 uniformRenderer)" by blast
  from a ae generateWork_branches [of adaptiveRenderer 16 32]
  have 2: "fst (generateWork 16 32 adaptiveRenderer)" by simp
  have "\<forall>r \<in> set (samples convergedRenderer). errorEstimate r \<le> 0" by (simp add: ce)
  with c generateWork_branches [of convergedRenderer 16 32]
  have 3: "\<not> fst (generateWork 16 32 convergedRenderer)" by blast
  from u us a ae c 1 2 3 show ?thesis by (simp add: ce)
qed

section \<open>Dilation of the adaptive weights\<close>

lemma weightsLe_refl: "weightsLe s s"
  by (simp add: weightsLe_def)

lemma weightsLe_trans: "weightsLe s t \<Longrightarrow> weightsLe t u \<Longrightarrow> weightsLe s u"
  by (fastforce simp: weightsLe_def)

lemma weightsLe_update:
  "i < length s \<Longrightarrow> adaptiveWeight (s ! i) \<le> v \<Longrightarrow>
   weightsLe s (s[i := (s ! i)\<lparr>adaptiveWeight := v\<rparr>])"
  by (simp add: weightsLe_def nth_list_update)

lemma cell_index_lt: "x < W \<Longrightarrow> y < H \<Longrightarrow> x + y * W < W * (H::nat)"
proof -
  assume a: "x < W" "y < H"
  then have "x + y * W < W + y * W" by simp
  also have "\<dots> = W * Suc y" by simp
  also from a have "\<dots> \<le> W * H" by (intro mult_le_mono2) simp
  finally show ?thesis .
qed

lemma dilateForwardCell_le:
  assumes "x < W" "y < H" "length s = W * H"
  shows "weightsLe s (dilateForwardCell W H y x s)"
proof -
  let ?idx = "x + y * W"
  have i: "?idx < length s" using assms by (simp add: cell_index_lt)
  let ?s1 = "if y < H - 1
             then s[?idx := (s ! ?idx)\<lparr>adaptiveWeight :=
                    max (adaptiveWeight (s ! ?idx)) (adaptiveWeight (s ! (?idx + W)))\<rparr>]
             else s"
  have 1: "weightsLe s ?s1"
    using i by (simp add: weightsLe_update weightsLe_refl)
  have l1: "?idx < length ?s1" using i by simp
  have 2: "weightsLe ?s1 (dilateForwardCell W H y x s)"
    unfolding dilateForwardCell_def Let_def
    using l1 by (simp add: weightsLe_update weightsLe_refl del: length_list_update)
  from 1 2 show ?thesis by (rule weightsLe_trans)
qed

lemma dilateForwardCell_below:
  assumes "x < W" "y < H - 1" "length s = W * H"
  shows "adaptiveWeight (s ! (x + y * W + W)) \<le> adaptiveWeight (dilateForwardCell W H y x s ! (x + y * W))"
proof -
  from assms have "y < H" by simp
  with assms have "x + y * W < length s" by (simp add: cell_index_lt)
  with assms show ?thesis
    by (simp add: dilateForwardCell_def Let_def le_max_iff_disj)
qed

lemma dilateForwardCell_right:
  assumes "x < W - 1" "y < H" "length s = W * H"
  shows "adaptiveWeight (s ! (x + y * W + 1)) \<le> adaptiveWeight (dilateForwardCell W H y x s ! (x + y * W))"
proof -
  from assms have "x < W" by simp
  with assms have "x + y * W < length s" by (simp add: cell_index_lt)
  with assms show ?thesis
    by (simp add: dilateForwardCell_def Let_def le_max_iff_disj)
qed

lemma dilateBackwardCell_le:
  assumes "x < W" "y < H" "length s = W * H"
  shows "weightsLe s (dilateBackwardCell W H y x s)"
proof -
  let ?idx = "x + y * W"
  have i: "?idx < length s" using assms by (simp add: cell_index_lt)
  let ?s1 = "if 0 < y
             then s[?idx := (s ! ?idx)\<lparr>adaptiveWeight :=
                    max (adaptiveWeight (s ! ?idx)) (adaptiveWeight (s ! (?idx - W)))\<rparr>]
             else s"
  have 1: "weightsLe s ?s1"
    using i by (simp add: weightsLe_update weightsLe_refl)
  have l1: "?idx < length ?s1" using i by simp
  have 2: "weightsLe ?s1 (dilateBackwardCell W H y x s)"
    unfolding dilateBackwardCell_def Let_def
    using l1 by (simp add: weightsLe_update weightsLe_refl del: length_list_update)
  from 1 2 show ?thesis by (rule weightsLe_trans)
qed

lemma dilateBackwardCell_above:
  assumes "x < W" "y < H" "0 < y" "length s = W * H"
  shows "adaptiveWeight (s ! (x + y * W - W)) \<le> adaptiveWeight (dilateBackwardCell W H y x s ! (x + y * W))"
proof -
  from assms have "x + y * W < length s" by (simp add: cell_index_lt)
  with assms show ?thesis
    by (simp add: dilateBackwardCell_def Let_def le_max_iff_disj)
qed

lemma dilateBackwardCell_left:
  assumes "x < W" "y < H" "0 < x" "length s = W * H"
  shows "adaptiveWeight (s ! (x + y * W - 1)) \<le> adaptiveWeight (dilateBackwardCell W H y x s ! (x + y * W))"
proof -
  from assms have "x + y * W < length s" by (simp add: cell_index_lt)
  with assms show ?thesis
    by (simp add: dilateBackwardCell_def Let_def le_max_iff_disj)
qed

lemma fold_weightsLe:
  assumes "length s = n"
    and "\<And>c s. c \<in> set l \<Longrightarrow> length s = n \<Longrightarrow> weightsLe s (f c s)"
  shows "weightsLe s (fold f l s)"
  using assms
proof (induction l arbitrary: s)
  case Nil
  then show ?case by (simp add: weightsLe_refl)
next
  case (Cons c l)
  have 1: "weightsLe s (f c s)" using Cons.prems by simp
  then have "length (f c s) = n" using Cons.prems(1) by (simp add: weightsLe_def)
  then have "weightsLe (f c s) (fold f l (f c s))"
    using Cons.prems(2) by (intro Cons.IH) simp_all
  with 1 have "weightsLe s (fold f l (f c s))" by (rule weightsLe_trans)
  then show ?case by simp
qed

lemma fold_gain:
  assumes step: "\<And>c s. c \<in> set l \<Longrightarrow> length s = n \<Longrightarrow> weightsLe s (f c s)"
    and c: "c \<in> set l"
    and gain: "\<And>s. length s = n \<Longrightarrow> adaptiveWeight (s ! j) \<le> adaptiveWeight (f c s ! i)"
    and n: "i < n" "j < n" "length s = n"
  shows "adaptiveWeight (s ! j) \<le> adaptiveWeight (fold f l s ! i)"
proof -
  from c obtain l1 l2 where l: "l = l1 @ c # l2" by (auto dest: split_list)
  let ?a = "fold f l1 s"
  have a: "weightsLe s ?a"
    using n(3) by (rule fold_weightsLe) (simp add: step l)
  then have la: "length ?a = n" using n by (simp add: weightsLe_def)
  have b: "weightsLe (f c ?a) (fold f l2 (f c ?a))"
  proof (rule fold_weightsLe)
    show "length (f c ?a) = n"
      using step [OF c la] la by (simp add: weightsLe_def)
  qed (simp add: step l)
  have "adaptiveWeight (s ! j) \<le> adaptiveWeight (?a ! j)"
    using a n by (simp add: weightsLe_def)
  also have "\<dots> \<le> adaptiveWeight (f c ?a ! i)" by (rule gain [OF la])
  also have "\<dots> \<le> adaptiveWeight (fold f l2 (f c ?a) ! i)"
    using b step [OF c la] la n by (simp add: weightsLe_def)
  finally show ?thesis by (simp add: l)
qed


lemma forwardRow_le:
  assumes "y < H" "length s = W * H"
  shows "weightsLe s (fold (\<lambda>x. dilateForwardCell W H y x) [0..<W] s)"
  using assms(2) by (rule fold_weightsLe) (simp add: dilateForwardCell_le assms(1))

lemma backwardRow_le:
  assumes "y < H" "length s = W * H"
  shows "weightsLe s (fold (\<lambda>x. dilateBackwardCell W H y x) (rev [0..<W]) s)"
  using assms(2) by (rule fold_weightsLe) (simp add: dilateBackwardCell_le assms(1))

lemma dilateForward_le:
  assumes "length s = W * H"
  shows "weightsLe s (dilateForward W H s)"
  unfolding dilateForward_def
  using assms by (rule fold_weightsLe) (simp add: forwardRow_le)

lemma dilateBackward_le:
  assumes "length s = W * H"
  shows "weightsLe s (dilateBackward W H s)"
  unfolding dilateBackward_def
  using assms by (rule fold_weightsLe) (simp add: backwardRow_le)

lemma dilateForward_gain:
  assumes xy: "x < W" "y < H" and len: "length s = W * H" and j: "j < W * H"
    and cell: "\<And>t. length t = W * H \<Longrightarrow>
      adaptiveWeight (t ! j) \<le> adaptiveWeight (dilateForwardCell W H y x t ! (x + y * W))"
  shows "adaptiveWeight (s ! j) \<le> adaptiveWeight (dilateForward W H s ! (x + y * W))"
  unfolding dilateForward_def
proof (rule fold_gain [where n = "W * H" and c = y])
  fix t :: "SampleRecord list"
  assume t: "length t = W * H"
  show "adaptiveWeight (t ! j)
      \<le> adaptiveWeight (fold (\<lambda>x. dilateForwardCell W H y x) [0..<W] t ! (x + y * W))"
  proof (rule fold_gain [where n = "W * H" and c = x])
    show "x + y * W < W * H" using xy by (rule cell_index_lt)
  qed (simp_all add: dilateForwardCell_le xy cell t j)
next
  show "x + y * W < W * H" using xy by (rule cell_index_lt)
qed (simp_all add: forwardRow_le xy len j)

lemma dilateBackward_gain:
  assumes xy: "x < W" "y < H" and len: "length s = W * H" and j: "j < W * H"
    and cell: "\<And>t. length t = W * H \<Longrightarrow>
      adaptiveWeight (t ! j) \<le> adaptiveWeight (dilateBackwardCell W H y x t ! (x + y * W))"
  shows "adaptiveWeight (s ! j) \<le> adaptiveWeight (dilateBackward W H s ! (x + y * W))"
  unfolding dilateBackward_def
proof (rule fold_gain [where n = "W * H" and c = y])
  fix t :: "SampleRecord list"
  assume t: "length t = W * H"
  show "adaptiveWeight (t ! j)
      \<le> adaptiveWeight (fold (\<lambda>x. dilateBackwardCell W H y x) (rev [0..<W]) t ! (x + y * W))"
  proof (rule fold_gain [where n = "W * H" and c = x])
    show "x + y * W < W * H" using xy by (rule cell_index_lt)
  qed (simp_all add: dilateBackwardCell_le xy cell t j)
next
  show "x + y * W < W * H" using xy by (rule cell_index_lt)
qed (simp_all add: backwardRow_le xy len j)

lemma dilateAdaptiveWeights_le:
  assumes "length s = W * H"
  shows "weightsLe s (dilateAdaptiveWeights W H s)"
proof -
  have f: "weightsLe s (dilateForward W H s)" using assms by (rule dilateForward_le)
  then have "length (dilateForward W H s) = W * H" using assms by (simp add: weightsLe_def)
  then have "weightsLe (dilateForward W H s) (dilateBackward W H (dilateForward W H s))"
    by (rule dilateBackward_le)
  with f show ?thesis unfolding dilateAdaptiveWeights_def by (rule weightsLe_trans)
qed

text \<open>
  Claim C7. \<open>dilateAdaptiveWeights\<close> is the forward pass followed by the backward
  pass. On a grid of \<open>W\<close> by \<open>H\<close> cells it keeps the number of records, and for
  every cell \<open>(x, y)\<close> the weight after dilation is at least the cell's weight before
  the call and at least the weight before the call of each of its existing neighbours
  to the right, to the left, below and above.
\<close>

theorem dilateAdaptiveWeights_dominates:
  assumes len: "length s = W * H" and x: "x < W" and y: "y < H"
  shows "length (dilateAdaptiveWeights W H s) = length s
       \<and> adaptiveWeight (s ! (x + y * W))
           \<le> adaptiveWeight (dilateAdaptiveWeights W H s ! (x + y * W))
       \<and> (x + 1 < W \<longrightarrow> adaptiveWeight (s ! ((x + 1) + y * W))
           \<le> adaptiveWeight (dilateAdaptiveWeights W H s ! (x + y * W)))
       \<and> (0 < x \<longrightarrow> adaptiveWeight (s ! ((x - 1) + y * W))
           \<le> adaptiveWeight (dilateAdaptiveWeights W H s ! (x + y * W)))
       \<and> (y + 1 < H \<longrightarrow> adaptiveWeight (s ! (x + (y + 1) * W))
           \<le> adaptiveWeight (dilateAdaptiveWeights W H s ! (x + y * W)))
       \<and> (0 < y \<longrightarrow> adaptiveWeight (s ! (x + (y - 1) * W))
           \<le> adaptiveWeight (dilateAdaptiveWeights W H s ! (x + y * W)))"
proof (intro conjI impI)
  let ?f = "dilateForward W H s"
  let ?d = "dilateAdaptiveWeights W H s"
  let ?i = "x + y * W"
  have i: "?i < W * H" using x y by (rule cell_index_lt)
  have all: "weightsLe s ?d" using len by (rule dilateAdaptiveWeights_le)
  have fwd: "weightsLe s ?f" using len by (rule dilateForward_le)
  then have lf: "length ?f = W * H" using len by (simp add: weightsLe_def)
  have bwd: "weightsLe ?f ?d"
    unfolding dilateAdaptiveWeights_def using lf by (rule dilateBackward_le)
  show "length ?d = length s" using all by (simp add: weightsLe_def)
  show "adaptiveWeight (s ! ?i) \<le> adaptiveWeight (?d ! ?i)"
    using all i len by (simp add: weightsLe_def)
  {
    assume r: "x + 1 < W"
    have "adaptiveWeight (s ! (?i + 1)) \<le> adaptiveWeight (?f ! ?i)"
    proof (rule dilateForward_gain [OF x y len])
      show "?i + 1 < W * H" using cell_index_lt [OF r y] by simp
    next
      fix t :: "SampleRecord list"
      assume "length t = W * H"
      then show "adaptiveWeight (t ! (?i + 1)) \<le> adaptiveWeight (dilateForwardCell W H y x t ! ?i)"
        using r y by (intro dilateForwardCell_right) simp_all
    qed
    also have "\<dots> \<le> adaptiveWeight (?d ! ?i)"
      using bwd i lf by (simp add: weightsLe_def)
    finally show "adaptiveWeight (s ! ((x + 1) + y * W)) \<le> adaptiveWeight (?d ! ?i)"
      by (simp add: add.commute add.left_commute)
  }
  {
    assume b: "y + 1 < H"
    have "adaptiveWeight (s ! (?i + W)) \<le> adaptiveWeight (?f ! ?i)"
    proof (rule dilateForward_gain [OF x y len])
      show "?i + W < W * H" using cell_index_lt [OF x b] by simp
    next
      fix t :: "SampleRecord list"
      assume "length t = W * H"
      then show "adaptiveWeight (t ! (?i + W)) \<le> adaptiveWeight (dilateForwardCell W H y x t ! ?i)"
        using b x by (intro dilateForwardCell_below) simp_all
    qed
    also have "\<dots> \<le> adaptiveWeight (?d ! ?i)"
      using bwd i lf by (simp add: weightsLe_def)
    finally show "adaptiveWeight (s ! (x + (y + 1) * W)) \<le> adaptiveWeight (?d ! ?i)"
      by (simp add: add.commute add.left_commute)
  }
  {
    assume l: "0 < x"
    then have lt: "?i - 1 < W * H" using i by simp
    have "adaptiveWeight (s ! (?i - 1)) \<le> adaptiveWeight (?f ! (?i - 1))"
      using fwd lt len by (simp add: weightsLe_def)
    also have "\<dots> \<le> adaptiveWeight (?d ! ?i)"
      unfolding dilateAdaptiveWeights_def
    proof (rule dilateBackward_gain [OF x y lf lt])
      fix t :: "SampleRecord list"
      assume "length t = W * H"
      then show "adaptiveWeight (t ! (?i - 1)) \<le> adaptiveWeight (dilateBackwardCell W H y x t ! ?i)"
        using l x y by (intro dilateBackwardCell_left) simp_all
    qed
    finally show "adaptiveWeight (s ! ((x - 1) + y * W)) \<le> adaptiveWeight (?d ! ?i)"
      using l by simp
  }
  {
    assume u: "0 < y"
    then have lt: "?i - W < W * H" using i by simp
    have e: "x + (y - 1) * W = ?i - W" using u by (cases y) simp_all
    have "adaptiveWeight (s ! (?i - W)) \<le> adaptiveWeight (?f ! (?i - W))"
      using fwd lt len by (simp add: weightsLe_def)
    also have "\<dots> \<le> adaptiveWeight (?d ! ?i)"
      unfolding dilateAdaptiveWeights_def
    proof (rule dilateBackward_gain [OF x y lf lt])
      fix t :: "SampleRecord list"
      assume "length t = W * H"
      then show "adaptiveWeight (t ! (?i - W)) \<le> adaptiveWeight (dilateBackwardCell W H y x t ! ?i)"
        using u x y by (intro dilateBackwardCell_above) simp_all
    qed
    finally show "adaptiveWeight (s ! (x + (y - 1) * W)) \<le> adaptiveWeight (?d ! ?i)"
      by (simp only: e)
  }
qed

theorem dilateAdaptiveWeights_dominates_witness:
  "length weights2x2 = 2 * 2
   \<and> map adaptiveWeight weights2x2 = [1, 2, 3, 4]
   \<and> map adaptiveWeight (dilateForward 2 2 weights2x2) = [3, 4, 4, 4]
   \<and> map adaptiveWeight (dilateAdaptiveWeights 2 2 weights2x2) = [3, 4, 4, 4]
   \<and> adaptiveWeight (weights2x2 ! (0 + 1 * 2))
       \<le> adaptiveWeight (dilateAdaptiveWeights 2 2 weights2x2 ! (0 + 0 * 2))"
proof -
  have u: "[0..<2::nat] = [0, 1]" by code_simp
  have l: "length weights2x2 = 2 * 2" by (simp add: weights2x2_def)
  have w: "map adaptiveWeight weights2x2 = [1, 2, 3, 4]" by (simp add: weights2x2_def)
  have f: "map adaptiveWeight (dilateForward 2 2 weights2x2) = [3, 4, 4, 4]"
    by (simp add: weights2x2_def dilateForward_def dilateForwardCell_def Let_def u)
  have d: "map adaptiveWeight (dilateAdaptiveWeights 2 2 weights2x2) = [3, 4, 4, 4]"
    by (simp add: weights2x2_def dilateAdaptiveWeights_def dilateForward_def
        dilateBackward_def dilateForwardCell_def dilateBackwardCell_def Let_def u)
  from dilateAdaptiveWeights_dominates [OF l, of 0 0]
  have "adaptiveWeight (weights2x2 ! (0 + (0 + 1) * 2))
       \<le> adaptiveWeight (dilateAdaptiveWeights 2 2 weights2x2 ! (0 + 0 * 2))" by simp
  then have "adaptiveWeight (weights2x2 ! (0 + 1 * 2))
       \<le> adaptiveWeight (dilateAdaptiveWeights 2 2 weights2x2 ! (0 + 0 * 2))" by simp
  with l w f d show ?thesis by blast
qed

section \<open>The stochastic rounding of \<open>distributeAdaptiveSamples\<close>\<close>



lemma distributeLoop_length: "length (fst (distributeLoop f smp p q rs)) = length rs"
  by (induction rs arbitrary: p q) (simp_all add: Let_def)



section \<open>The adaptive branch of \<open>generateWork\<close>\<close>







text \<open>The records the adaptive branch hands to \<open>distributeAdaptiveSamples\<close>.\<close>

lemma generateWork_adaptive:
  assumes "useAdaptiveSampling R \<and> AdaptiveThreshold R \<le> sppFrom"
    and "fst (errorPercentile95 (samples R)) \<noteq> 0"
  shows "generateWork sppFrom sppTo R =
     (True, distributeAdaptiveSamples (sppTo - sppFrom)
        (R\<lparr>samples := dilateAdaptiveWeights (unat (varianceW R)) (unat (varianceH R))
           (map (\<lambda>r. r\<lparr>sampleIndex := sampleIndex r + nextSampleCount r,
                         adaptiveWeight := min (errorEstimate r)
                            (fst (errorPercentile95 (samples R)))\<rparr>) (samples R))\<rparr>))"
proof -
  let ?ss0 = "map (\<lambda>r. r\<lparr>sampleIndex := sampleIndex r + nextSampleCount r\<rparr>) (samples R)"
  have e: "fst (errorPercentile95 ?ss0) = fst (errorPercentile95 (samples R))"
    by (rule errorPercentile95_sampleIndex)
  obtain m ss1 where p: "errorPercentile95 ?ss0 = (m, ss1)" by (cases "errorPercentile95 ?ss0")
  with e have m: "m = fst (errorPercentile95 (samples R))" by simp
  from p have ss1: "ss1 = map (\<lambda>r. r\<lparr>adaptiveWeight := errorEstimate r\<rparr>) ?ss0"
    using errorPercentile95_snd [of ?ss0] by simp
  show ?thesis
    using assms unfolding generateWork_def Let_def p
    by (simp add: m [symmetric] ss1 comp_def)
qed






lemma generateWork_uniform:
  assumes "\<not> (useAdaptiveSampling R \<and> AdaptiveThreshold R \<le> sppFrom)"
  shows "generateWork sppFrom sppTo R =
     (True, R\<lparr>samples := map (\<lambda>r. r\<lparr>sampleIndex := sampleIndex r + nextSampleCount r,
                                     nextSampleCount := sppTo - sppFrom\<rparr>) (samples R)\<rparr>)"
  by (simp add: generateWork_def Let_def comp_def assms)


lemma sint_nonneg_small: "uint (w :: 32 word) < 2 ^ 31 \<Longrightarrow> 0 \<le> sint w"
proof -
  assume a: "uint w < 2 ^ 31"
  have "- (2 ^ 31) \<le> uint w" by (rule order_trans [of _ 0]) simp_all
  then have "signed_take_bit 31 (uint w) = uint w"
    using a by (rule signed_take_bit_int_eq_self)
  then have "sint w = uint w" by (simp add: sint_uint)
  then show ?thesis by simp
qed

lemma budgetPerTile_nonneg:
  assumes "2 \<le> VarianceTileSize R * VarianceTileSize R"
  shows "0 \<le> sint (budgetPerTile R spp)"
proof -
  let ?x = "(spp - 1) * imgW R * imgH R" and ?d = "VarianceTileSize R * VarianceTileSize R"
  have "uint (?x div ?d) = uint ?x div uint ?d" by (simp add: uint_div)
  also have "\<dots> \<le> uint ?x div 2"
    using assms by (intro zdiv_mono2) (simp_all add: word_le_def)
  also have "\<dots> < 2 ^ 31" using uint_lt2p [of ?x] by simp
  finally show ?thesis unfolding budgetPerTile_def by (rule sint_nonneg_small)
qed






text \<open>
  One record per cell is an invariant of the driver: the constructor establishes it
  (as long as the number of cells fits 32 bits) and \<open>generateWork\<close> keeps it.
\<close>

lemma newRenderer_gridShaped:
  assumes "unat ((rw + vts - 1) div vts) * unat ((rh + vts - 1) div vts) < 2 ^ 32"
  shows "gridShaped (newRenderer vts thr adaptive rw rh smp)"
proof -
  let ?vw = "(rw + vts - 1) div vts" and ?vh = "(rh + vts - 1) div vts"
  have "unat (?vw * ?vh) = unat ?vw * unat ?vh"
    using assms by (simp add: unat_mult_lem [THEN iffD1])
  then show ?thesis by (simp add: gridShaped_def newRenderer_def Let_def)
qed

lemma generateWork_length:
  assumes "gridShaped R"
  shows "length (samples (snd (generateWork sppFrom sppTo R))) = length (samples R)"
proof (cases "useAdaptiveSampling R \<and> AdaptiveThreshold R \<le> sppFrom")
  case False
  then show ?thesis by (simp add: generateWork_uniform)
next
  case True
  show ?thesis
  proof (cases "fst (errorPercentile95 (samples R)) = 0")
    case z: True
    let ?ss0 = "map (\<lambda>r. r\<lparr>sampleIndex := sampleIndex r + nextSampleCount r\<rparr>) (samples R)"
    have "fst (errorPercentile95 ?ss0) = 0"
      using z by (simp only: errorPercentile95_sampleIndex)
    moreover have "length (snd (errorPercentile95 ?ss0)) = length (samples R)"
      by (simp add: errorPercentile95_snd)
    ultimately show ?thesis using True
      by (auto simp: generateWork_def Let_def split: prod.splits)
  next
    case nz: False
    let ?ss2 = "map (\<lambda>r. r\<lparr>sampleIndex := sampleIndex r + nextSampleCount r,
                         adaptiveWeight := min (errorEstimate r)
                            (fst (errorPercentile95 (samples R)))\<rparr>) (samples R)"
    have "length ?ss2 = unat (varianceW R) * unat (varianceH R)"
      using assms by (simp add: gridShaped_def)
    then have "weightsLe ?ss2 (dilateAdaptiveWeights (unat (varianceW R)) (unat (varianceH R)) ?ss2)"
      by (rule dilateAdaptiveWeights_le)
    then have "length (dilateAdaptiveWeights (unat (varianceW R)) (unat (varianceH R)) ?ss2)
        = length (samples R)"
      by (simp add: weightsLe_def)
    then show ?thesis
      by (simp add: generateWork_adaptive [OF True nz] distributeAdaptiveSamples_def Let_def
          distributeLoop_length)
  qed
qed

lemma generateWork_gridShaped:
  assumes "gridShaped R"
  shows "gridShaped (snd (generateWork sppFrom sppTo R))"
proof -
  have "varianceW (snd (generateWork sppFrom sppTo R)) = varianceW R
      \<and> varianceH (snd (generateWork sppFrom sppTo R)) = varianceH R"
    by (simp add: generateWork_def distributeAdaptiveSamples_def Let_def split: prod.splits)
  with generateWork_length [OF assms, of sppFrom sppTo] assms show ?thesis
    by (simp add: gridShaped_def)
qed

section \<open>Every cell is scheduled at least once\<close>



section \<open>The sample budget of a pass\<close>




section \<open>Sampling the plastic BSDF\<close>

lemma specularProbabilityOf_inline:
  "specularProbabilityOf env b event =
   (let Fi = dielectricReflectance env (1 / ior b) (vz (wi event))
    in Fi / (Fi + avgTransmittance b * (1 - Fi)))"
  by (simp add: specularProbabilityOf_def fresnelIn_def Let_def)

lemma exampleFresnel_normal: "exampleFresnel (2 / 3) 1 = 1 / 25"
  by (simp add: exampleFresnel_def Let_def)

lemma examplePlastic_fields:
  "ior examplePlastic = 3 / 2 \<and> avgTransmittance examplePlastic = 1
   \<and> scaledSigmaA examplePlastic = splat 0 \<and> diffuseFresnel examplePlastic = 0"
  by (simp add: examplePlastic_def PlasticBsdf_init_def exampleEnv_def Let_def vscale_def
      splat_def vavg_def)

lemma example_sample_none:
  "PlasticBsdf_sample exampleEnv examplePlastic (exampleEvent {DiffuseTransmissionLobe}) =
     (True, (exampleEvent {DiffuseTransmissionLobe})\<lparr>sampler_state := 2, wo := Vec3f 0 0 1,
        throughput := splat (128 / 625), pdf := 1 / pi,
        sampledLobe := {DiffuseReflectionLobe}\<rparr>)"
  by (simp add: PlasticBsdf_sample_def Let_def examplePlastic_fields exampleEnv_def
      exampleEvent_def exampleFresnel_normal albedoTerm_def splat_def vmax_def vscale_def
      vquot_def vsub_def)

lemma example_sample_specular_only:
  "PlasticBsdf_sample exampleEnv examplePlastic (exampleEvent {SpecularReflectionLobe}) =
     (True, (exampleEvent {SpecularReflectionLobe})\<lparr>sampler_state := 1, wo := Vec3f 0 0 1,
        pdf := 0, throughput := splat (1 / 25),
        sampledLobe := {SpecularReflectionLobe}\<rparr>)"
  by (simp add: PlasticBsdf_sample_def Let_def examplePlastic_fields exampleEnv_def
      exampleEvent_def exampleFresnel_normal)

lemma example_sample_both:
  "PlasticBsdf_sample exampleEnv examplePlastic
       (exampleEvent {SpecularReflectionLobe, DiffuseReflectionLobe}) =
     (True, (exampleEvent {SpecularReflectionLobe, DiffuseReflectionLobe})
        \<lparr>sampler_state := 3, wo := Vec3f 0 0 1,
        throughput := splat (16 / 75), pdf := 24 / (25 * pi),
        sampledLobe := {DiffuseReflectionLobe}\<rparr>)"
  by (simp add: PlasticBsdf_sample_def Let_def examplePlastic_fields exampleEnv_def
      exampleEvent_def exampleFresnel_normal albedoTerm_def splat_def vmax_def vscale_def
      vquot_def vsub_def vdivs_def)

text \<open>
  Claim C6. \<open>sample\<close> returns false exactly when \<open>wi.z \<le> 0\<close>. When it returns
  true and takes the specular branch, that is when the specular lobe is requested and
  either the uniform draw is below \<open>p = Fi/(Fi + avgTransmittance*(1 - Fi))\<close> or the
  diffuse lobe is not requested, it sets \<open>wo\<close> to the mirror image of \<open>wi\<close>, the pdf
  to 0, the throughput to \<open>Fi/p\<close> when the diffuse lobe was requested too and to
  \<open>Fi\<close> when it was not, and the sampled lobe to specular reflection. In every other
  case with \<open>0 < wi.z\<close> the sampled lobe is diffuse reflection.
\<close>

theorem PlasticBsdf_sample_specular:
  "(\<not> fst (PlasticBsdf_sample env b event)) = (vz (wi event) \<le> 0)
   \<and> (0 < vz (wi event) \<and> SpecularReflectionLobe \<in> requestedLobe event
        \<and> (fst (next1D env (sampler_state event)) < specularProbabilityOf env b event
             \<or> DiffuseReflectionLobe \<notin> requestedLobe event) \<longrightarrow>
        wo (snd (PlasticBsdf_sample env b event))
          = Vec3f (- vx (wi event)) (- vy (wi event)) (vz (wi event))
        \<and> pdf (snd (PlasticBsdf_sample env b event)) = 0
        \<and> throughput (snd (PlasticBsdf_sample env b event))
          = (if DiffuseReflectionLobe \<in> requestedLobe event
             then splat (fresnelIn env b event / specularProbabilityOf env b event)
             else splat (fresnelIn env b event))
        \<and> sampledLobe (snd (PlasticBsdf_sample env b event)) = {SpecularReflectionLobe})
   \<and> (0 < vz (wi event)
        \<and> \<not> (SpecularReflectionLobe \<in> requestedLobe event
               \<and> (fst (next1D env (sampler_state event)) < specularProbabilityOf env b event
                    \<or> DiffuseReflectionLobe \<notin> requestedLobe event)) \<longrightarrow>
        sampledLobe (snd (PlasticBsdf_sample env b event)) = {DiffuseReflectionLobe})"
proof (intro conjI impI)
  show "(\<not> fst (PlasticBsdf_sample env b event)) = (vz (wi event) \<le> 0)"
    by (simp add: PlasticBsdf_sample_def Let_def)
next
  assume a: "0 < vz (wi event) \<and> SpecularReflectionLobe \<in> requestedLobe event
        \<and> (fst (next1D env (sampler_state event)) < specularProbabilityOf env b event
             \<or> DiffuseReflectionLobe \<notin> requestedLobe event)"
  then have s: "snd (PlasticBsdf_sample env b event) =
      event\<lparr>sampler_state := snd (next1D env (sampler_state event)),
        wo := Vec3f (- vx (wi event)) (- vy (wi event)) (vz (wi event)),
        pdf := 0,
        throughput := (if DiffuseReflectionLobe \<in> requestedLobe event
             then splat (fresnelIn env b event / specularProbabilityOf env b event)
             else splat (fresnelIn env b event)),
        sampledLobe := {SpecularReflectionLobe}\<rparr>"
    unfolding specularProbabilityOf_inline fresnelIn_def
    by (auto simp: PlasticBsdf_sample_def Let_def)
  show "wo (snd (PlasticBsdf_sample env b event))
          = Vec3f (- vx (wi event)) (- vy (wi event)) (vz (wi event))"
    by (simp add: s)
  show "pdf (snd (PlasticBsdf_sample env b event)) = 0" by (simp add: s)
  show "throughput (snd (PlasticBsdf_sample env b event))
          = (if DiffuseReflectionLobe \<in> requestedLobe event
             then splat (fresnelIn env b event / specularProbabilityOf env b event)
             else splat (fresnelIn env b event))"
    by (simp add: s)
  show "sampledLobe (snd (PlasticBsdf_sample env b event)) = {SpecularReflectionLobe}"
    by (simp add: s)
next
  assume "0 < vz (wi event)
        \<and> \<not> (SpecularReflectionLobe \<in> requestedLobe event
               \<and> (fst (next1D env (sampler_state event)) < specularProbabilityOf env b event
                    \<or> DiffuseReflectionLobe \<notin> requestedLobe event))"
  then show "sampledLobe (snd (PlasticBsdf_sample env b event)) = {DiffuseReflectionLobe}"
    unfolding specularProbabilityOf_inline
    by (auto simp: PlasticBsdf_sample_def Let_def)
qed

theorem PlasticBsdf_sample_specular_witness:
  "0 < vz (wi (exampleEvent {SpecularReflectionLobe}))
   \<and> SpecularReflectionLobe \<in> requestedLobe (exampleEvent {SpecularReflectionLobe})
   \<and> DiffuseReflectionLobe \<notin> requestedLobe (exampleEvent {SpecularReflectionLobe})
   \<and> fresnelIn exampleEnv examplePlastic (exampleEvent {SpecularReflectionLobe}) = 1 / 25
   \<and> snd (PlasticBsdf_sample exampleEnv examplePlastic (exampleEvent {SpecularReflectionLobe}))
       = (exampleEvent {SpecularReflectionLobe})\<lparr>sampler_state := 1, wo := Vec3f 0 0 1,
           pdf := 0, throughput := splat (1 / 25), sampledLobe := {SpecularReflectionLobe}\<rparr>
   \<and> specularProbabilityOf exampleEnv examplePlastic
        (exampleEvent {SpecularReflectionLobe, DiffuseReflectionLobe}) = 1 / 25
   \<and> fst (next1D exampleEnv (sampler_state
        (exampleEvent {SpecularReflectionLobe, DiffuseReflectionLobe}))) = 1 / 2
   \<and> sampledLobe (snd (PlasticBsdf_sample exampleEnv examplePlastic
        (exampleEvent {SpecularReflectionLobe, DiffuseReflectionLobe}))) = {DiffuseReflectionLobe}"
proof -
  let ?e = "exampleEvent {SpecularReflectionLobe}"
  let ?e2 = "exampleEvent {SpecularReflectionLobe, DiffuseReflectionLobe}"
  have h: "0 < vz (wi ?e) \<and> SpecularReflectionLobe \<in> requestedLobe ?e
        \<and> (fst (next1D exampleEnv (sampler_state ?e)) < specularProbabilityOf exampleEnv examplePlastic ?e
             \<or> DiffuseReflectionLobe \<notin> requestedLobe ?e)"
    by (simp add: exampleEvent_def)
  have f: "fresnelIn exampleEnv examplePlastic ?e = 1 / 25"
    by (simp add: fresnelIn_def examplePlastic_fields exampleEnv_def exampleEvent_def
        exampleFresnel_normal)
  have p: "specularProbabilityOf exampleEnv examplePlastic ?e2 = 1 / 25"
    by (simp add: specularProbabilityOf_def fresnelIn_def examplePlastic_fields exampleEnv_def
        exampleEvent_def exampleFresnel_normal)
  have d: "fst (next1D exampleEnv (sampler_state ?e2)) = 1 / 2"
    by (simp add: exampleEnv_def)
  with p have h2: "0 < vz (wi ?e2)
        \<and> \<not> (SpecularReflectionLobe \<in> requestedLobe ?e2
               \<and> (fst (next1D exampleEnv (sampler_state ?e2)) < specularProbabilityOf exampleEnv examplePlastic ?e2
                    \<or> DiffuseReflectionLobe \<notin> requestedLobe ?e2))"
    by (simp add: exampleEvent_def)
  from PlasticBsdf_sample_specular [of exampleEnv examplePlastic ?e] h
  have 1: "throughput (snd (PlasticBsdf_sample exampleEnv examplePlastic ?e))
      = (if DiffuseReflectionLobe \<in> requestedLobe ?e
         then splat (fresnelIn exampleEnv examplePlastic ?e / specularProbabilityOf exampleEnv examplePlastic ?e)
         else splat (fresnelIn exampleEnv examplePlastic ?e))"
    by blast
  from PlasticBsdf_sample_specular [of exampleEnv examplePlastic ?e2] h2
  have 2: "sampledLobe (snd (PlasticBsdf_sample exampleEnv examplePlastic ?e2)) = {DiffuseReflectionLobe}"
    by blast
  have r: "0 < vz (wi ?e)" "SpecularReflectionLobe \<in> requestedLobe ?e"
    "DiffuseReflectionLobe \<notin> requestedLobe ?e"
    by (simp_all add: exampleEvent_def)
  from r f p d 1 2 show ?thesis by (simp add: example_sample_specular_only)
qed

text \<open>
  Claim C3 at a request that names neither the specular nor the diffuse reflection
  lobe. \<open>sample\<close> has no case for it and falls through to the diffuse branch: it
  returns true with the diffuse lobe sampled and the density of the cosine warp as
  pdf, while \<open>pdf\<close> and \<open>eval\<close>, which both test the diffuse lobe, return zero for
  the event \<open>sample\<close> has written.
\<close>

theorem PlasticBsdf_sample_unrequested_diffuse:
  assumes "0 < vz (wi event)"
    and "SpecularReflectionLobe \<notin> requestedLobe event"
    and "DiffuseReflectionLobe \<notin> requestedLobe event"
  shows "fst (PlasticBsdf_sample env b event)
       \<and> sampledLobe (snd (PlasticBsdf_sample env b event)) = {DiffuseReflectionLobe}
       \<and> requestedLobe (snd (PlasticBsdf_sample env b event)) = requestedLobe event
       \<and> pdf (snd (PlasticBsdf_sample env b event))
           = cosineHemispherePdf env (wo (snd (PlasticBsdf_sample env b event)))
       \<and> PlasticBsdf_pdf env b (snd (PlasticBsdf_sample env b event)) = 0
       \<and> PlasticBsdf_eval env b (snd (PlasticBsdf_sample env b event)) = splat 0"
  using assms
  by (simp add: PlasticBsdf_sample_def PlasticBsdf_pdf_def PlasticBsdf_eval_def Let_def)

theorem PlasticBsdf_sample_unrequested_diffuse_witness:
  "0 < vz (wi (exampleEvent {DiffuseTransmissionLobe}))
   \<and> SpecularReflectionLobe \<notin> requestedLobe (exampleEvent {DiffuseTransmissionLobe})
   \<and> DiffuseReflectionLobe \<notin> requestedLobe (exampleEvent {DiffuseTransmissionLobe})
   \<and> fst (PlasticBsdf_sample exampleEnv examplePlastic (exampleEvent {DiffuseTransmissionLobe}))
   \<and> wo (snd (PlasticBsdf_sample exampleEnv examplePlastic (exampleEvent {DiffuseTransmissionLobe}))) = Vec3f 0 0 1
   \<and> pdf (snd (PlasticBsdf_sample exampleEnv examplePlastic (exampleEvent {DiffuseTransmissionLobe}))) = 1 / pi
   \<and> throughput (snd (PlasticBsdf_sample exampleEnv examplePlastic (exampleEvent {DiffuseTransmissionLobe})))
       = splat (128 / 625)
   \<and> PlasticBsdf_pdf exampleEnv examplePlastic
        (snd (PlasticBsdf_sample exampleEnv examplePlastic (exampleEvent {DiffuseTransmissionLobe}))) = 0
   \<and> PlasticBsdf_eval exampleEnv examplePlastic
        (snd (PlasticBsdf_sample exampleEnv examplePlastic (exampleEvent {DiffuseTransmissionLobe}))) = splat 0"
proof -
  have h: "0 < vz (wi (exampleEvent {DiffuseTransmissionLobe}))"
    "SpecularReflectionLobe \<notin> requestedLobe (exampleEvent {DiffuseTransmissionLobe})"
    "DiffuseReflectionLobe \<notin> requestedLobe (exampleEvent {DiffuseTransmissionLobe})"
    by (simp_all add: exampleEvent_def)
  from PlasticBsdf_sample_unrequested_diffuse [OF h, of exampleEnv examplePlastic]
  have "PlasticBsdf_pdf exampleEnv examplePlastic
        (snd (PlasticBsdf_sample exampleEnv examplePlastic (exampleEvent {DiffuseTransmissionLobe}))) = 0
     \<and> PlasticBsdf_eval exampleEnv examplePlastic
        (snd (PlasticBsdf_sample exampleEnv examplePlastic (exampleEvent {DiffuseTransmissionLobe}))) = splat 0"
    by blast
  with h show ?thesis by (simp add: example_sample_none)
qed

text \<open>
  For a request that does name the diffuse lobe the three functions agree. Whenever
  \<open>sample\<close> takes the diffuse branch with \<open>0 < wo.z\<close>, \<open>pdf\<close> returns the pdf the
  sample wrote, by the same operations in the same order; and in exact arithmetic, with
  \<open>|z|/\<pi>\<close> as the density of the cosine warp, \<open>eval\<close> divided by \<open>pdf\<close> is the
  throughput the sample wrote.
\<close>

lemma vdivs_one: "vdivs v 1 = v"
  by (cases v) (simp add: vdivs_def)

lemma ratio_cancel:
  assumes "c \<noteq> 0"
  shows "vdivs (if s then vmul (vscale (A * c) D) E else vscale (A * c) D) (c * q)
       = vdivs (if s then vmul (vscale A D) E else vscale A D) q"
  using assms by (simp add: vdivs_def vscale_def vmul_def)

lemma diffuse_consistent_core:
  fixes env :: "('i, 's) BsdfEnv" and event :: "('i, 's) SurfaceScatterEvent"
  assumes wiz: "0 < vz (wi event)"
    and T: "DiffuseReflectionLobe \<in> requestedLobe event"
    and e: "snd (PlasticBsdf_sample env b event) =
      event\<lparr>sampler_state := st, wo := w,
        throughput := vdivs (if 0 < vmax (scaledSigmaA b)
           then vmul (vscale A (albedoTerm b (albedo env (info event))))
                  (absorption b (vz w) (vz (wi event)))
           else vscale A (albedoTerm b (albedo env (info event)))) q,
        pdf := cosineHemispherePdf env w * q,
        sampledLobe := {DiffuseReflectionLobe}\<rparr>"
    and A: "A = (1 - dielectricReflectance env (1 / ior b) (vz (wi event)))
              * (1 - dielectricReflectance env (1 / ior b) (vz w)) * (1 / ior b) * (1 / ior b)"
    and q: "q = (if SpecularReflectionLobe \<in> requestedLobe event
                 then 1 - specularProbabilityOf env b event else 1)"
    and w0: "0 < vz w"
    and warp: "cosineHemispherePdf env w = \<bar>vz w\<bar> * (1 / pi)"
  shows "PlasticBsdf_pdf env b (snd (PlasticBsdf_sample env b event))
           = pdf (snd (PlasticBsdf_sample env b event))
       \<and> vdivs (PlasticBsdf_eval env b (snd (PlasticBsdf_sample env b event)))
                (PlasticBsdf_pdf env b (snd (PlasticBsdf_sample env b event)))
           = throughput (snd (PlasticBsdf_sample env b event))"
proof -
  let ?e = "snd (PlasticBsdf_sample env b event)"
  let ?D = "albedoTerm b (albedo env (info event))"
  let ?E = "absorption b (vz w) (vz (wi event))"
  let ?c = "vz w * (1 / pi)"
  have c0: "?c \<noteq> 0" using w0 by simp
  have 1: "PlasticBsdf_pdf env b ?e = ?c * q"
    using wiz w0 T by (simp add: e PlasticBsdf_pdf_def Let_def q warp specularProbabilityOf_inline)
  have 2: "pdf ?e = ?c * q" using w0 by (simp add: e warp)
  have 3: "PlasticBsdf_eval env b ?e
      = (if 0 < vmax (scaledSigmaA b) then vmul (vscale (A * ?c) ?D) ?E else vscale (A * ?c) ?D)"
    using wiz w0 T by (simp add: e PlasticBsdf_eval_def Let_def A mult.assoc)
  have 4: "throughput ?e
      = vdivs (if 0 < vmax (scaledSigmaA b) then vmul (vscale A ?D) ?E else vscale A ?D) q"
    by (simp add: e)
  have "vdivs (PlasticBsdf_eval env b ?e) (PlasticBsdf_pdf env b ?e) = throughput ?e"
    unfolding 1 3 4 using c0 by (rule ratio_cancel)
  with 1 2 show ?thesis by simp
qed


lemma PlasticBsdf_diffuse_consistent:
  fixes env :: "('i, 's) BsdfEnv" and event :: "('i, 's) SurfaceScatterEvent"
  assumes wiz: "0 < vz (wi event)"
    and T: "DiffuseReflectionLobe \<in> requestedLobe event"
    and br: "sampledLobe (snd (PlasticBsdf_sample env b event)) = {DiffuseReflectionLobe}"
    and woz: "0 < vz (wo (snd (PlasticBsdf_sample env b event)))"
    and warp: "\<And>w. cosineHemispherePdf env w = \<bar>vz w\<bar> * (1 / pi)"
  shows "PlasticBsdf_pdf env b (snd (PlasticBsdf_sample env b event))
           = pdf (snd (PlasticBsdf_sample env b event))
       \<and> vdivs (PlasticBsdf_eval env b (snd (PlasticBsdf_sample env b event)))
                (PlasticBsdf_pdf env b (snd (PlasticBsdf_sample env b event)))
           = throughput (snd (PlasticBsdf_sample env b event))"
proof (cases "SpecularReflectionLobe \<in> requestedLobe event")
  case True
  let ?p = "specularProbabilityOf env b event"
  let ?d = "next1D env (sampler_state event)"
  have nb: "\<not> fst ?d < ?p"
  proof
    assume "fst ?d < ?p"
    with wiz True have "sampledLobe (snd (PlasticBsdf_sample env b event)) = {SpecularReflectionLobe}"
      by (simp add: PlasticBsdf_sample_def Let_def specularProbabilityOf_inline)
    with br show False by simp
  qed
  let ?w = "cosineHemisphere env (fst (next2D env (snd ?d)))"
  show ?thesis
  proof (rule diffuse_consistent_core [OF wiz T _ refl _ _ warp, where w = ?w
        and st = "snd (next2D env (snd ?d))" and q = "1 - ?p"])
    show "snd (PlasticBsdf_sample env b event) =
      event\<lparr>sampler_state := snd (next2D env (snd ?d)), wo := ?w,
        throughput := vdivs (if 0 < vmax (scaledSigmaA b)
           then vmul (vscale ((1 - dielectricReflectance env (1 / ior b) (vz (wi event)))
              * (1 - dielectricReflectance env (1 / ior b) (vz ?w)) * (1 / ior b) * (1 / ior b))
                (albedoTerm b (albedo env (info event))))
                  (absorption b (vz ?w) (vz (wi event)))
           else vscale ((1 - dielectricReflectance env (1 / ior b) (vz (wi event)))
              * (1 - dielectricReflectance env (1 / ior b) (vz ?w)) * (1 / ior b) * (1 / ior b))
                (albedoTerm b (albedo env (info event)))) (1 - ?p),
        pdf := cosineHemispherePdf env ?w * (1 - ?p),
        sampledLobe := {DiffuseReflectionLobe}\<rparr>"
      using wiz True T nb
      by (simp add: PlasticBsdf_sample_def Let_def specularProbabilityOf_inline)
    then show "0 < vz ?w" using woz by simp
    show "1 - ?p = (if SpecularReflectionLobe \<in> requestedLobe event then 1 - ?p else 1)"
      using True by simp
  qed
next
  case False
  let ?w = "cosineHemisphere env (fst (next2D env (sampler_state event)))"
  show ?thesis
  proof (rule diffuse_consistent_core [OF wiz T _ refl _ _ warp, where w = ?w
        and st = "snd (next2D env (sampler_state event))" and q = 1])
    show "snd (PlasticBsdf_sample env b event) =
      event\<lparr>sampler_state := snd (next2D env (sampler_state event)), wo := ?w,
        throughput := vdivs (if 0 < vmax (scaledSigmaA b)
           then vmul (vscale ((1 - dielectricReflectance env (1 / ior b) (vz (wi event)))
              * (1 - dielectricReflectance env (1 / ior b) (vz ?w)) * (1 / ior b) * (1 / ior b))
                (albedoTerm b (albedo env (info event))))
                  (absorption b (vz ?w) (vz (wi event)))
           else vscale ((1 - dielectricReflectance env (1 / ior b) (vz (wi event)))
              * (1 - dielectricReflectance env (1 / ior b) (vz ?w)) * (1 / ior b) * (1 / ior b))
                (albedoTerm b (albedo env (info event)))) 1,
        pdf := cosineHemispherePdf env ?w * 1,
        sampledLobe := {DiffuseReflectionLobe}\<rparr>"
      using wiz False
      by (simp add: PlasticBsdf_sample_def Let_def vdivs_one)
    then show "0 < vz ?w" using woz by simp
    show "1 = (if SpecularReflectionLobe \<in> requestedLobe event
               then 1 - specularProbabilityOf env b event else 1)"
      using False by simp
  qed
qed

section \<open>Bitmap lookup\<close>










section \<open>Importance sampling of a bitmap\<close>

text \<open>
  In exact arithmetic \<open>pdf\<close> undoes \<open>sample\<close>: when the warp returns a point of the
  unit cell together with a row and a column, \<open>pdf\<close> at the sampled coordinate reads
  the distribution at that row and that column, the inversion \<open>1 - v\<close> included. The
  statement is about the reals. In single precision the sums \<open>newUv.x + column\<close> and
  \<open>newUv.y + row\<close>, the quotients and the products are rounded, and a point of the
  cell within half a unit in the last place of its edge is carried into the next column
  or row; what the code does there is outside this embedding.
\<close>

lemma to_int_cell: "0 \<le> x \<Longrightarrow> x < 1 \<Longrightarrow> 0 \<le> k \<Longrightarrow> to_int (x + real_of_int k) = k"
  by (simp add: to_int_def floor_eq_iff)

lemma BitmapTexture_roundtrip_exact:
  assumes W: "0 < texW t" and H: "0 < texH t"
    and w: "distWarp t coord = (newUv, row, column)"
    and x: "0 \<le> ux newUv" "ux newUv < 1" and y: "0 \<le> uy newUv" "uy newUv < 1"
    and rc: "0 \<le> row" "0 \<le> column"
  shows "BitmapTexture_pdf t (BitmapTexture_sample t coord)
       = distPdf t row column * real_of_int (texW t) * real_of_int (texH t)"
proof -
  have s: "BitmapTexture_sample t coord =
      Vec2f ((ux newUv + real_of_int column) / real_of_int (texW t))
            (1 - (uy newUv + real_of_int row) / real_of_int (texH t))"
    by (simp add: BitmapTexture_sample_def w)
  have "(1 - (1 - (uy newUv + real_of_int row) / real_of_int (texH t))) * real_of_int (texH t)
      = uy newUv + real_of_int row"
    using H by simp
  then have r: "to_int ((1 - uy (BitmapTexture_sample t coord)) * real_of_int (texH t)) = row"
    unfolding s using y rc by (simp only: Vec2f.sel to_int_cell)
  have "(ux newUv + real_of_int column) / real_of_int (texW t) * real_of_int (texW t)
      = ux newUv + real_of_int column"
    using W by simp
  then have c: "to_int (ux (BitmapTexture_sample t coord) * real_of_int (texW t)) = column"
    unfolding s using x rc by (simp only: Vec2f.sel to_int_cell)
  show ?thesis unfolding BitmapTexture_pdf_def r c ..
qed

section \<open>Sampling a direction towards the mesh\<close>














section \<open>Material indices after preparation\<close>

lemma clamp_range: "lo \<le> hi \<Longrightarrow> lo \<le> clamp v lo hi \<and> clamp v lo hi \<le> hi"
  by (simp add: clamp_def)

lemma prepareForRender_tris:
  "verts m \<noteq> [] \<Longrightarrow> tris (prepareForRender m) = map (clampMaterial m) (tris m)"
  by (cases "tris m = []") (simp_all add: prepareForRender_def Let_def)

lemma prepareForRender_bsdfs: "bsdfs (prepareForRender m) = bsdfs m"
  by (simp add: prepareForRender_def Let_def)

lemma clampMaterial_range:
  assumes "bsdfs m \<noteq> []"
  shows "0 \<le> material (clampMaterial m t) \<and>
         material (clampMaterial m t) \<le> int (length (bsdfs m)) - 1"
proof -
  from assms have "(0::int) \<le> int (length (bsdfs m)) - 1"
    by (cases "bsdfs m") simp_all
  then show ?thesis
    using clamp_range [of 0 "int (length (bsdfs m)) - 1" "material t"]
    by (simp add: clampMaterial_def)
qed

text \<open>
  Claim C10, as the code has it. \<open>prepareForRender\<close> returns early on a mesh without
  vertices or without triangles, before the loop that clamps. For a mesh with at least
  one BSDF and at least one vertex, every triangle's material index lies in
  \<open>[0, numBsdfs - 1]\<close> after \<open>prepareForRender\<close>, and \<open>intersectionInfo\<close> finds a
  BSDF for every hit whose triangle id is one of the mesh's.
\<close>

theorem prepareForRender_material_in_bounds:
  assumes "bsdfs m \<noteq> []" and "verts m \<noteq> []"
  shows "(\<forall>t \<in> set (tris (prepareForRender m)).
            0 \<le> material t \<and> material t \<le> int (length (bsdfs (prepareForRender m))) - 1)
       \<and> (\<forall>isect. id0 isect < length (tris (prepareForRender m)) \<longrightarrow>
            (\<exists>info. intersectionInfo (prepareForRender m) isect info0 = Some info \<and>
               info_bsdf info \<in> set (bsdfs m)))"
proof (intro conjI allI impI)
  show inb: "\<forall>t \<in> set (tris (prepareForRender m)).
      0 \<le> material t \<and> material t \<le> int (length (bsdfs (prepareForRender m))) - 1"
    using assms clampMaterial_range [OF assms(1)]
    by (auto simp: prepareForRender_tris prepareForRender_bsdfs)
  fix isect :: MeshIntersection
  assume lt: "id0 isect < length (tris (prepareForRender m))"
  let ?m = "prepareForRender m"
  let ?mat = "material (tris ?m ! id0 isect)"
  from lt have "tris ?m ! id0 isect \<in> set (tris ?m)" by simp
  with inb have r: "0 \<le> ?mat" "?mat < int (length (bsdfs ?m))" by force+
  then have "nat ?mat < length (bsdfs ?m)" by linarith
  then have "bsdfs ?m ! nat ?mat \<in> set (bsdfs m)"
    by (metis nth_mem prepareForRender_bsdfs)
  with lt r show "\<exists>info. intersectionInfo ?m isect info0 = Some info \<and> info_bsdf info \<in> set (bsdfs m)"
    by (simp add: intersectionInfo_def Let_def)
qed

theorem prepareForRender_material_in_bounds_witness:
  "bsdfs unitTriangleMesh \<noteq> [] \<and> verts unitTriangleMesh \<noteq> []
   \<and> map material (tris (prepareForRender unitTriangleMesh)) = [0]
   \<and> map_option info_bsdf (intersectionInfo (prepareForRender unitTriangleMesh)
         \<lparr>isect_Ng = Vec3f 0 0 1, isect_u = 0, isect_v = 0, id0 = 0, id1 = 0,
          backSide = False\<rparr>
         \<lparr>info_p = Vec3f 0 0 0, info_Ng = Vec3f 0 0 0, info_Ns = Vec3f 0 0 0,
          info_uv = Vec2f 0 0, info_bsdf = ()\<rparr>) = Some ()"
  using prepareForRender_material_in_bounds [of unitTriangleMesh]
  by (simp add: unitTriangleMesh_def prepareForRender_def clampMaterial_def clamp_def
      intersectionInfo_def Let_def)

text \<open>
  Claim C10 as stated fails on a mesh with triangles and no vertex: the early return
  leaves the material index 7 in place although the mesh has one BSDF, and the lookup
  of \<open>intersectionInfo\<close> is out of bounds.
\<close>

theorem prepareForRender_no_vertex_counterexample:
  "bsdfs noVertexMesh \<noteq> []
   \<and> map material (tris (prepareForRender noVertexMesh)) = [7]
   \<and> length (bsdfs (prepareForRender noVertexMesh)) = 1
   \<and> intersectionInfo (prepareForRender noVertexMesh)
         \<lparr>isect_Ng = Vec3f 0 0 1, isect_u = 0, isect_v = 0, id0 = 0, id1 = 0,
          backSide = False\<rparr>
         \<lparr>info_p = Vec3f 0 0 0, info_Ng = Vec3f 0 0 0, info_Ns = Vec3f 0 0 0,
          info_uv = Vec2f 0 0, info_bsdf = ()\<rparr> = None"
  by (simp add: noVertexMesh_def prepareForRender_def intersectionInfo_def Let_def)

end
